theory Spec2Isabelle
  imports Complex_Main "HOL-Library.Char_ord" "HOL-Library.List_Lexorder" "HOL-Library.Multiset"
begin

section \<open>Python values shared by the models\<close>

text \<open>
  Exceptions are values: every function that can raise returns \<open>py_error + 'a\<close>, with
  \<open>Inl\<close> the exception. The constructor \<open>NotFoundError\<close> is the exception the provider
  client raises for an unknown batch; \<open>ProviderError\<close> stands for any other exception of a
  call into a library outside the sources.
\<close>

datatype py_error =
    ValueError string
  | AttributeError string
  | KeyError string
  | IndexError string
  | TypeError string
  | OSError string
  | NotFoundError string
  | ProviderError string

datatype log_entry =
    LogDebug string
  | LogInfo string
  | LogWarning string
  | LogError string

type_synonym datetime = string

text \<open>\<open>str(e)\<close> for an exception: its message.\<close>

definition error_message :: "py_error \<Rightarrow> string" where
  "error_message e =
     (case e of
        ValueError m \<Rightarrow> m
      | AttributeError m \<Rightarrow> m
      | KeyError m \<Rightarrow> m
      | IndexError m \<Rightarrow> m
      | TypeError m \<Rightarrow> m
      | OSError m \<Rightarrow> m
      | NotFoundError m \<Rightarrow> m
      | ProviderError m \<Rightarrow> m)"

definition bind :: "py_error + 'a \<Rightarrow> ('a \<Rightarrow> py_error + 'b) \<Rightarrow> py_error + 'b" where
  "bind m f = (case m of Inl e \<Rightarrow> Inl e | Inr x \<Rightarrow> f x)"

subsection \<open>Dictionaries, lists and scalars\<close>

text \<open>
  The values the code reads out of provider responses and passes as generation parameters:
  \<open>None\<close>, booleans, integers, floats (carried as data; the only arithmetic on one is
  the halving of the cost), strings, lists and dictionaries. A dictionary keeps its
  entries in insertion order; its keys are strings.
\<close>

datatype json =
    JNull
  | JBool bool
  | JInt int
  | JFloat real
  | JString string
  | JArray "json list"
  | JObject "(string \<times> json) list"

type_synonym py_dict = "(string \<times> json) list"

text \<open>\<open>d[k]\<close> for a string key.\<close>

definition getitem :: "json \<Rightarrow> string \<Rightarrow> py_error + json" where
  "getitem d k =
     (case d of
        JObject kvs \<Rightarrow> (case map_of kvs k of None \<Rightarrow> Inl (KeyError k) | Some v \<Rightarrow> Inr v)
      | JArray xs \<Rightarrow> Inl (TypeError ''list indices must be integers or slices, not str'')
      | JString s \<Rightarrow> Inl (TypeError ''string indices must be integers, not str'')
      | _ \<Rightarrow> Inl (TypeError ''object is not subscriptable''))"

text \<open>\<open>d[0]\<close>.\<close>

definition getitem0 :: "json \<Rightarrow> py_error + json" where
  "getitem0 d =
     (case d of
        JArray xs \<Rightarrow> (case xs of [] \<Rightarrow> Inl (IndexError ''list index out of range'') | x # _ \<Rightarrow> Inr x)
      | JString s \<Rightarrow> (case s of [] \<Rightarrow> Inl (IndexError ''string index out of range'')
                      | c # _ \<Rightarrow> Inr (JString [c]))
      | JObject kvs \<Rightarrow> Inl (KeyError ''0'')
      | _ \<Rightarrow> Inl (TypeError ''object is not subscriptable''))"

text \<open>\<open>d.get(k, default)\<close>: only dictionaries have the method.\<close>

definition get_default :: "json \<Rightarrow> string \<Rightarrow> json \<Rightarrow> py_error + json" where
  "get_default d k dflt =
     (case d of
        JObject kvs \<Rightarrow> (case map_of kvs k of None \<Rightarrow> Inr dflt | Some v \<Rightarrow> Inr v)
      | _ \<Rightarrow> Inl (AttributeError ''object has no attribute get''))"

text \<open>
  \<open>a + b\<close> on the token counts. Integers are added; for any other pair of operands the
  model reports \<open>TypeError\<close>.
\<close>

definition py_add :: "json \<Rightarrow> json \<Rightarrow> py_error + json" where
  "py_add a b =
     (case (a, b) of
        (JInt x, JInt y) \<Rightarrow> Inr (JInt (x + y))
      | _ \<Rightarrow> Inl (TypeError ''unsupported operand type(s) for +''))"

text \<open>
  \<open>d[k] = v\<close> and the merge of a dictionary display \<open>{..., **d}\<close>: an existing key keeps
  its place and takes the new value, a new key is appended.
\<close>

fun dict_set :: "py_dict \<Rightarrow> string \<Rightarrow> json \<Rightarrow> py_dict" where
  "dict_set [] k v = [(k, v)]"
| "dict_set ((k', v') # kvs) k v =
     (if k' = k then (k, v) # kvs else (k', v') # dict_set kvs k v)"


subsection \<open>Decimal strings\<close>

text \<open>\<open>str(n)\<close> for an integer \<open>n\<close>, and \<open>int(s)\<close> for a string of ASCII decimal digits
  with an optional minus sign.\<close>

definition digit_char :: "nat \<Rightarrow> char" where
  "digit_char d = char_of (48 + d)"

fun digits :: "nat \<Rightarrow> string" where
  "digits n = (if n < 10 then [digit_char n] else digits (n div 10) @ [digit_char (n mod 10)])"

declare digits.simps [simp del]

definition str_int :: "int \<Rightarrow> string" where
  "str_int i = (if i < 0 then CHR ''-'' # digits (nat (- i)) else digits (nat i))"





subsection \<open>Function objects, response formats and the prompt formatter\<close>

text \<open>
  A function object, by the attributes the fingerprinting code reads. A constant of a code
  object is a collection (tuple, list, set, frozenset) of items or anything else; items
  and other constants are identified by their serialised text. Defaults, closure,
  keyword defaults and annotations are opaque.
\<close>

datatype py_const = Scalar string | Collection "string list"

record py_code =
  co_argcount :: int
  co_posonlyargcount :: int
  co_kwonlyargcount :: int
  co_nlocals :: int
  co_stacksize :: int
  co_flags :: int
  co_code :: string
  co_consts :: "py_const list"
  co_names :: "string list"
  co_varnames :: "string list"
  co_filename :: string
  co_name :: string
  co_firstlineno :: int
  co_linetable :: string
  co_freevars :: "string list"
  co_cellvars :: "string list"

record py_function =
  fn_code :: py_code
  fn_globals :: "(string \<times> string) list"
  fn_name :: string
  fn_defaults :: "string option"
  fn_closure :: "string option"
  fn_module :: "string option"
  fn_qualname :: string
  fn_kwdefaults :: "string option"
  fn_annotations :: string

text \<open>
  The provider-agnostic request, by the attributes the sources read. \<open>TokenUsage\<close> and
  \<open>GenericResponse\<close> are declared outside the sources; their fields are the keyword
  arguments the sources construct them with, and the validation their classes may perform
  is not modelled.
\<close>

record GenericRequest =
  original_row_idx :: int
  model :: string
  messages :: json
  generation_params :: py_dict

record TokenUsage =
  prompt_tokens :: json
  completion_tokens :: json
  total_tokens :: json

record GenericResponse =
  response_message :: "json option"
  response_errors :: "string list option"
  raw_response :: json
  raw_request :: "json option"
  generic_request :: GenericRequest
  created_at :: datetime
  finished_at :: "datetime option"
  token_usage :: "TokenUsage option"
  response_cost :: "real option"

text \<open>A pydantic model class, by its name and the JSON schema it reports.\<close>

record pydantic_model =
  class_name :: string
  model_json_schema :: json

text \<open>
  \<open>PromptFormatter\<close> is declared outside the sources; its fields are the five arguments
  \<open>LLM.__init__\<close> constructs it from, which are also the attributes the sources read.
\<close>

record PromptFormatter =
  model_name :: string
  prompt_func :: py_function
  parse_func :: "py_function option"
  response_format :: "pydantic_model option"
  generation_params :: py_dict

text \<open>
  A dataset, by its content fingerprint and rows. A request processor, as \<open>LLM\<close> uses it:
  its class, its \<open>backend\<close> attribute, and its two entry points, whose code is outside the
  sources.
\<close>

record Dataset =
  fingerprint :: string
  rows :: "json list"

datatype processor_class =
    OpenAIBatch
  | AnthropicBatch
  | OpenAIOnline
  | LiteLLMOnline

record request_processor =
  processor_class :: processor_class
  backend :: string
  cancel_batches :: "string \<Rightarrow> py_error + Dataset"
  run :: "Dataset option \<Rightarrow> string \<Rightarrow> string \<Rightarrow> PromptFormatter \<Rightarrow> py_error + Dataset"

subsection \<open>Collaborators outside the sources\<close>

text \<open>
  Calls whose code is not among the sources are parameters of the model: Python's \<open>str\<close>
  on a container (\<open>py_str\<close>; \<open>str_items\<close> on a list of key-value tuples), the xxHash
  digest, the picklers of \<open>datasets\<close> and \<open>dill\<close>, pydantic's \<open>schema_json\<close>,
  \<open>inspect\<close>, \<open>os.path.expanduser\<close>, \<open>Dataset.from_generator\<close>, \<open>litellm\<close>,
  \<open>instructor\<close>, the request processor factory, the structured-output check of the
  OpenAI online processor, and the prompt formatter's \<open>parse_response_message\<close>, which
  returns the parsed message and the list of errors.
\<close>

record externals =
  py_str :: "json \<Rightarrow> string"
  str_items :: "(string \<times> json) list \<Rightarrow> string"
  xxh64_hexdigest :: "string \<Rightarrow> string"
  pickler_dump :: "py_function \<Rightarrow> string"
  dill_dump :: "py_function \<Rightarrow> string"
  schema_json :: "pydantic_model \<Rightarrow> string"
  getsource :: "py_function \<Rightarrow> py_error + string"
  signature_parameters :: "py_function \<Rightarrow> nat"
  expanduser :: "string \<Rightarrow> string"
  from_generator :: "json \<Rightarrow> py_error + Dataset"
  factory_create ::
    "json option \<Rightarrow> string \<Rightarrow> bool \<Rightarrow> pydantic_model option \<Rightarrow> string option \<Rightarrow> py_dict
       \<Rightarrow> py_error + request_processor"
  completion_cost :: "string \<Rightarrow> string \<Rightarrow> json \<Rightarrow> py_error + real"
  get_max_tokens :: "string \<Rightarrow> py_error + json"
  handle_response_model :: "pydantic_model option \<Rightarrow> json \<Rightarrow> py_error + py_dict"
  parse_response_message :: "PromptFormatter \<Rightarrow> json \<Rightarrow> json option \<times> string list option"
  check_structured_output_support :: "string \<Rightarrow> bool"

section \<open>The Anthropic batch request processor\<close>

subsection \<open>Provider-side and generic batch objects\<close>

record MessageBatchRequestCounts =
  canceled :: int
  errored :: int
  expired :: int
  succeeded :: int
  processing :: int

record MessageBatch =
  mb_id :: string
  mb_created_at :: datetime
  ended_at :: "datetime option"
  processing_status :: string
  mb_request_counts :: MessageBatchRequestCounts

text \<open>
  Modelled from the spec: the enumeration \<open>GenericBatchStatus\<close> is declared in
  \<open>types/generic_batch.py\<close>, which is not among the sources; the spec lists its members
  as CREATED, SUBMITTED, FINISHED, FAILED, CANCELLED.
\<close>

datatype GenericBatchStatus = CREATED | SUBMITTED | FINISHED | FAILED | CANCELLED

record GenericBatchRequestCounts =
  failed :: int
  gb_succeeded :: int
  total :: int
  raw_request_counts_object :: MessageBatchRequestCounts

text \<open>The fields are those the constructor call in \<open>parse_api_specific_batch_object\<close> sets.\<close>

record GenericBatch =
  request_file :: "string option"
  batch_id :: string
  created_at :: datetime
  finished_at :: "datetime option"
  status :: GenericBatchStatus
  api_key_suffix :: string
  request_counts :: GenericBatchRequestCounts
  raw_batch :: MessageBatch
  raw_status :: string

text \<open>
  Python is dynamically typed: \<open>parse_api_specific_batch_object\<close> is annotated to take a
  provider \<open>MessageBatch\<close>, but \<open>cancel_batch\<close> hands it a \<open>GenericBatch\<close>. The argument
  is therefore either kind of object, and reading an attribute the object does not have
  raises \<open>AttributeError\<close>.
\<close>

datatype batch_object =
    MessageBatchObject MessageBatch
  | GenericBatchObject GenericBatch

definition parse_api_specific_request_counts ::
    "MessageBatchRequestCounts \<Rightarrow> GenericBatchRequestCounts" where
  "parse_api_specific_request_counts rc =
     (let failed' = canceled rc + errored rc + expired rc;
          succeeded' = succeeded rc;
          processing' = processing rc
      in \<lparr> failed = failed',
           gb_succeeded = succeeded',
           total = processing' + succeeded' + failed',
           raw_request_counts_object = rc \<rparr>)"

text \<open>\<open>s[-4:]\<close>: the last four characters, or all of \<open>s\<close> when it is shorter.\<close>

definition last4 :: "string \<Rightarrow> string" where
  "last4 s = drop (length s - 4) s"

definition parse_api_specific_batch_object ::
    "string \<Rightarrow> batch_object \<Rightarrow> string option \<Rightarrow> py_error + GenericBatch" where
  "parse_api_specific_batch_object client_api_key batch req_file =
     (case batch of
        GenericBatchObject g \<Rightarrow>
          Inl (AttributeError ''GenericBatch object has no attribute processing_status'')
      | MessageBatchObject b \<Rightarrow>
          (let built = (\<lambda>st.
                 \<lparr> request_file = req_file,
                   batch_id = mb_id b,
                   created_at = mb_created_at b,
                   finished_at = ended_at b,
                   status = st,
                   api_key_suffix = last4 client_api_key,
                   request_counts = parse_api_specific_request_counts (mb_request_counts b),
                   raw_batch = b,
                   raw_status = processing_status b \<rparr>)
           in if processing_status b \<in> set [''cancelling'', ''in_progress'']
              then Inr (built SUBMITTED)
              else if processing_status b \<in> set [''ended'']
              then Inr (built FINISHED)
              else Inl (ValueError (''Unknown batch status: '' @ processing_status b))))"

subsection \<open>The processor object, the provider and the observable effects\<close>

text \<open>
  The processor holds the client's API key, the tracker's dictionary of submitted batches
  and the client. The provider is outside the program: its answers to
  \<open>client.messages.batches.retrieve\<close> and \<open>client.messages.batches.cancel\<close> are
  functions of the batch id, and the calls made are recorded in the world. The outcome of
  \<open>batch_object.status == "ended"\<close>, a comparison of a \<open>GenericBatchStatus\<close> member with a
  string, depends on the enumeration's declaration, which is not among the sources; it is
  the parameter \<open>status_equals\<close>. The semaphore that bounds concurrent batch operations is
  not modelled.
\<close>

datatype provider_call = BatchesRetrieve string | BatchesCancel string

record world =
  logged :: "log_entry list"
  calls :: "provider_call list"

record AnthropicBatchRequestProcessor =
  config_model :: string
  prompt_formatter :: PromptFormatter
  api_key :: string
  submitted_batches :: "string \<rightharpoonup> GenericBatch"
  batches_retrieve :: "string \<Rightarrow> py_error + MessageBatch"
  batches_cancel :: "string \<Rightarrow> py_error + MessageBatch"
  status_equals :: "GenericBatchStatus \<Rightarrow> string \<Rightarrow> bool"

definition logging :: "log_entry \<Rightarrow> world \<Rightarrow> world" where
  "logging e w = w\<lparr>logged := logged w @ [e]\<rparr>"

definition calling :: "provider_call \<Rightarrow> world \<Rightarrow> world" where
  "calling c w = w\<lparr>calls := calls w @ [c]\<rparr>"

definition not_found_warning :: "AnthropicBatchRequestProcessor \<Rightarrow> GenericBatch \<Rightarrow> log_entry" where
  "not_found_warning self batch =
     LogWarning (''batch object '' @ batch_id batch @ '' not found. '' @
                 ''Your API key (***'' @ last4 (api_key self) @
                 '') might not have access to this batch.'')"

text \<open>
  The \<open>except\<close> clause of \<open>retrieve_batch\<close> names \<open>NotFoundError\<close> as line 8 imports it,
  from \<open>anthropic.types.shared.not_found_error\<close>: the model class that describes the body
  of a not-found response, which is not an exception class. When an exception of the
  provider call reaches the clause, Python raises \<open>TypeError\<close> instead of matching it,
  whatever the exception is, and the handler (the warning and \<open>return None\<close>) does not
  run. The handler is kept in the model under the test that decides it.
\<close>

definition imported_NotFoundError_is_exception_class :: bool where
  "imported_NotFoundError_is_exception_class = False"

definition retrieve_batch ::
    "AnthropicBatchRequestProcessor \<Rightarrow> GenericBatch \<Rightarrow> world
       \<Rightarrow> (py_error + GenericBatch option) \<times> world" where
  "retrieve_batch self batch w =
     (let w1 = calling (BatchesRetrieve (batch_id batch)) w in
      case batches_retrieve self (batch_id batch) of
        Inl e \<Rightarrow>
          if imported_NotFoundError_is_exception_class
          then (case e of
                  NotFoundError m \<Rightarrow> (Inr None, logging (not_found_warning self batch) w1)
                | _ \<Rightarrow> (Inl e, w1))
          else (Inl (TypeError (''catching classes that do not inherit from '' @
                                ''BaseException is not allowed'')), w1)
      | Inr b \<Rightarrow>
          (case submitted_batches self (mb_id b) of
             None \<Rightarrow> (Inl (KeyError (mb_id b)), w1)
           | Some tracked \<Rightarrow>
               (case parse_api_specific_batch_object (api_key self) (MessageBatchObject b)
                       (request_file tracked) of
                  Inl e \<Rightarrow> (Inl e, w1)
                | Inr g \<Rightarrow> (Inr (Some g), w1))))"

text \<open>
  \<open>cancel_batch\<close>: the tracker lookup, the retrieval, the test against \<open>"ended"\<close>, and the
  \<open>try\<close> block. Inside the \<open>try\<close>, an exception of the provider's cancel call or of the
  \<open>return\<close> expression is caught by \<open>except Exception\<close>; the handler logs it and evaluates
  the same \<open>return\<close> expression again, whose exception then propagates.
\<close>

definition cancel_batch ::
    "AnthropicBatchRequestProcessor \<Rightarrow> GenericBatch \<Rightarrow> world
       \<Rightarrow> (py_error + GenericBatch) \<times> world" where
  "cancel_batch self batch w =
     (case submitted_batches self (batch_id batch) of
        None \<Rightarrow> (Inl (KeyError (batch_id batch)), w)
      | Some tracked \<Rightarrow>
          (let req_file = request_file tracked in
           case retrieve_batch self batch w of
             (Inl e, w1) \<Rightarrow> (Inl e, w1)
           | (Inr None, w1) \<Rightarrow>
               (Inl (AttributeError ''NoneType object has no attribute status''), w1)
           | (Inr (Some g), w1) \<Rightarrow>
               (let reparse = parse_api_specific_batch_object (api_key self)
                                (GenericBatchObject g) req_file;
                    handler = (\<lambda>e w'.
                      (reparse,
                       logging (LogError (''Failed to cancel batch '' @ batch_id batch @
                                          '': '' @ error_message e)) w'))
                in if status_equals self (status g) ''ended''
                   then (reparse,
                         logging (LogWarning (''Batch '' @ batch_id batch @
                                              '' is already ended, cannot cancel'')) w1)
                   else
                     (let w2 = calling (BatchesCancel (batch_id batch)) w1 in
                      case batches_cancel self (batch_id batch) of
                        Inl e \<Rightarrow> handler e w2
                      | Inr _ \<Rightarrow>
                          (let w3 = logging (LogInfo (''Successfully cancelled batch: '' @
                                                      batch_id batch)) w2
                           in case reparse of
                                Inl e \<Rightarrow> handler e w3
                              | Inr r \<Rightarrow> (Inr r, w3))))))"

subsection \<open>Parsing one downloaded result\<close>

text \<open>What an f-string or \<open>str\<close> makes of a value: a string is itself.\<close>

definition to_str :: "externals \<Rightarrow> json \<Rightarrow> string" where
  "to_str ext v = (case v of JString s \<Rightarrow> s | _ \<Rightarrow> py_str ext v)"

text \<open>The branch for a result of type \<open>succeeded\<close>: the message, the errors, the token
  usage and the cost.\<close>

definition parse_succeeded ::
    "externals \<Rightarrow> AnthropicBatchRequestProcessor \<Rightarrow> json \<Rightarrow> GenericRequest
       \<Rightarrow> py_error + (json option \<times> string list option \<times> TokenUsage \<times> real)" where
  "parse_succeeded ext self raw request =
     bind (bind (getitem raw ''result'') (\<lambda>r. getitem r ''message'')) (\<lambda>response_body.
     bind (bind (bind (getitem response_body ''content'') getitem0)
             (\<lambda>block. getitem block ''text'')) (\<lambda>response_message_raw.
     bind (getitem response_body ''stop_reason'') (\<lambda>stop_reason.
     bind (getitem response_body ''stop_sequence'') (\<lambda>stop_sequence.
     bind (get_default response_body ''usage'' (JObject [])) (\<lambda>usage.
     bind (get_default usage ''input_tokens'' (JInt 0)) (\<lambda>prompt.
     bind (get_default usage ''output_tokens'' (JInt 0)) (\<lambda>completion.
     bind (bind (get_default usage ''input_tokens'' (JInt 0)) (\<lambda>a.
           bind (get_default usage ''output_tokens'' (JInt 0)) (\<lambda>b. py_add a b))) (\<lambda>both.
     bind (Inr (parse_response_message ext (prompt_formatter self) response_message_raw))
       (\<lambda>parsed.
     bind (completion_cost ext (config_model self) (to_str ext (messages request))
             response_message_raw) (\<lambda>cost.
     Inr (fst parsed, snd parsed,
          \<lparr> prompt_tokens = prompt, completion_tokens = completion, total_tokens = both \<rparr>,
          cost * 0.5)))))))))))"

text \<open>The \<open>GenericResponse\<close> that the function returns.\<close>

definition respond ::
    "json \<Rightarrow> GenericRequest \<Rightarrow> GenericBatch \<Rightarrow> json option \<Rightarrow> string list option
       \<Rightarrow> TokenUsage option \<Rightarrow> real option \<Rightarrow> GenericResponse" where
  "respond raw request batch message errors usage cost =
     \<lparr> response_message = message,
       response_errors = errors,
       raw_response = raw,
       raw_request = None,
       generic_request = request,
       GenericResponse.created_at = GenericBatch.created_at batch,
       GenericResponse.finished_at = GenericBatch.finished_at batch,
       token_usage = usage,
       response_cost = cost \<rparr>"

definition result_warning :: "externals \<Rightarrow> json \<Rightarrow> json \<Rightarrow> json \<Rightarrow> log_entry" where
  "result_warning ext custom_id result_type error =
     LogWarning (''custom_id '' @ to_str ext custom_id @ '' result was '' @ [CHR 0x27] @
                 to_str ext result_type @ [CHR 0x27] @ '' with error '' @ [CHR 0x27] @
                 to_str ext error @ [CHR 0x27])"

definition parse_api_specific_response ::
    "externals \<Rightarrow> AnthropicBatchRequestProcessor \<Rightarrow> json \<Rightarrow> GenericRequest \<Rightarrow> GenericBatch
       \<Rightarrow> world \<Rightarrow> (py_error + GenericResponse) \<times> world" where
  "parse_api_specific_response ext self raw request batch w =
     (case bind (getitem raw ''result'') (\<lambda>r. getitem r ''type'') of
        Inl e \<Rightarrow> (Inl e, w)
      | Inr result_type \<Rightarrow>
          if result_type \<noteq> JString ''succeeded''
          then
            (case bind (getitem raw ''result'') (\<lambda>r. getitem r ''error'') of
               Inl e \<Rightarrow> (Inl e, w)
             | Inr error \<Rightarrow>
                 (case getitem raw ''custom_id'' of
                    Inl e \<Rightarrow> (Inl e, w)
                  | Inr custom_id \<Rightarrow>
                      (Inr (respond raw request batch None (Some [to_str ext error]) None None),
                       logging (result_warning ext custom_id result_type error) w)))
          else
            (case parse_succeeded ext self raw request of
               Inl e \<Rightarrow> (Inl e, w)
             | Inr (message, errors, usage, cost) \<Rightarrow>
                 (Inr (respond raw request batch message errors (Some usage) (Some cost)), w)))"

text \<open>Whether a response has its message, and whether it has errors.\<close>

definition message_populated :: "GenericResponse \<Rightarrow> bool" where
  "message_populated r = (response_message r \<noteq> None)"

definition errors_populated :: "string list option \<Rightarrow> bool" where
  "errors_populated errors = (case errors of None \<Rightarrow> False | Some es \<Rightarrow> es \<noteq> [])"

subsection \<open>Building one provider request\<close>


subsection \<open>Restoring the input order\<close>





section \<open>The LLM entry point\<close>

subsection \<open>Strings and paths\<close>

definition join :: "string \<Rightarrow> string list \<Rightarrow> string" where
  "join sep parts = (case parts of [] \<Rightarrow> [] | p # ps \<Rightarrow> foldl (\<lambda>acc q. acc @ sep @ q) p ps)"

definition str_bool :: "bool \<Rightarrow> string" where
  "str_bool b = (if b then ''True'' else ''False'')"

text \<open>\<open>str.lower\<close> on ASCII letters; other characters are left as they are.\<close>

definition lower_char :: "char \<Rightarrow> char" where
  "lower_char c =
     (if 65 \<le> (of_char c :: nat) \<and> (of_char c :: nat) \<le> 90
      then char_of ((of_char c :: nat) + 32) else c)"

definition lower :: "string \<Rightarrow> string" where
  "lower s = map lower_char s"

text \<open>\<open>os.path.join\<close> of two components on a POSIX system.\<close>

definition path_join :: "string \<Rightarrow> string \<Rightarrow> string" where
  "path_join a b =
     (if take 1 b = ''/'' then b
      else if a = [] \<or> last a = CHR ''/'' then a @ b
      else a @ ''/'' @ b)"

subsection \<open>Hashing a function and stripping parameters\<close>

definition get_function_hash :: "externals \<Rightarrow> py_function option \<Rightarrow> string" where
  "get_function_hash ext func =
     (case func of
        None \<Rightarrow> xxh64_hexdigest ext []
      | Some f \<Rightarrow> xxh64_hexdigest ext (pickler_dump ext f))"

definition get_function_source :: "externals \<Rightarrow> py_function \<Rightarrow> py_error + string" where
  "get_function_source ext func =
     (case getsource ext func of
        Inl e \<Rightarrow> (case e of OSError m \<Rightarrow> Inr [] | _ \<Rightarrow> Inl e)
      | Inr src \<Rightarrow> Inr src)"

definition remove_none_values :: "py_dict \<Rightarrow> py_dict" where
  "remove_none_values d = filter (\<lambda>kv. snd kv \<noteq> JNull) d"

subsection \<open>The object and its construction\<close>

record LLM =
  prompt_formatter :: PromptFormatter
  batch_mode :: bool
  request_processor :: request_processor

definition LLM_init ::
    "externals \<Rightarrow> string \<Rightarrow> py_function \<Rightarrow> py_function option \<Rightarrow> pydantic_model option \<Rightarrow> bool
       \<Rightarrow> string option \<Rightarrow> py_dict option \<Rightarrow> json option \<Rightarrow> py_error + LLM" where
  "LLM_init ext name prompt parse format batch backend_arg generation_params_arg backend_params =
     (let generation_params' = (case generation_params_arg of None \<Rightarrow> [] | Some d \<Rightarrow> d);
          formatter = \<lparr> model_name = name,
                        prompt_func = prompt,
                        parse_func = parse,
                        response_format = format,
                        generation_params = remove_none_values generation_params' \<rparr>
      in bind (factory_create ext backend_params name batch format backend_arg
                 generation_params') (\<lambda>processor.
         Inr \<lparr> prompt_formatter = formatter,
               batch_mode = batch,
               request_processor = processor \<rparr>))"

subsection \<open>The fingerprint\<close>

text \<open>
  The state of the operating system and of the stores the run writes to: the environment
  variables, the bytes the entropy source delivers (each \<open>os.urandom\<close> call consumes the
  next ones), the clock, the rows of the metadata store, and the calls made into the
  request processor.
\<close>

datatype processor_call =
    CancelBatches string
  | Run string string

record metadata =
  timestamp :: datetime
  md_dataset_hash :: string
  md_prompt_func :: string
  md_parse_func :: string
  md_model_name :: string
  md_response_format :: string
  run_hash :: string
  md_batch_mode :: bool

record os_state =
  environ :: "string \<rightharpoonup> string"
  entropy :: "nat \<Rightarrow> char"
  entropy_pos :: nat
  clock :: datetime
  metadata_db :: "(string \<times> metadata) list"
  processor_calls :: "processor_call list"

definition urandom :: "nat \<Rightarrow> os_state \<Rightarrow> string \<times> os_state" where
  "urandom n st =
     (map (entropy st) [entropy_pos st ..< entropy_pos st + n],
      st\<lparr>entropy_pos := entropy_pos st + n\<rparr>)"

text \<open>The string that is hashed when caching is enabled. The two debug messages that
  \<open>_hash_fingerprint\<close> logs are not modelled.\<close>

definition fingerprint_str :: "externals \<Rightarrow> LLM \<Rightarrow> string \<Rightarrow> string" where
  "fingerprint_str ext self dataset_hash =
     (let formatter = prompt_formatter self;
          prompt_func_hash = get_function_hash ext (Some (prompt_func formatter));
          base = join ''_''
                   [dataset_hash,
                    prompt_func_hash,
                    model_name formatter,
                    (case response_format formatter of
                       Some format \<Rightarrow> py_str ext (model_json_schema format)
                     | None \<Rightarrow> ''text''),
                    str_bool (batch_mode self),
                    backend (request_processor self)]
      in if generation_params formatter \<noteq> []
         then base @ ''_'' @ str_items ext (sort_key fst (generation_params formatter))
         else base)"

definition hash_fingerprint ::
    "externals \<Rightarrow> LLM \<Rightarrow> string \<Rightarrow> bool \<Rightarrow> os_state \<Rightarrow> string \<times> os_state" where
  "hash_fingerprint ext self dataset_hash disable_cache st =
     (if disable_cache
      then (let drawn = urandom 8 st in (xxh64_hexdigest ext (fst drawn), snd drawn))
      else (xxh64_hexdigest ext (fingerprint_str ext self dataset_hash), st))"

subsection \<open>Running\<close>

text \<open>
  The argument of \<open>__call__\<close> is a \<open>Dataset\<close>, some other iterable, or \<open>None\<close>.
\<close>

datatype py_iterable = IsDataset Dataset | IsIterable json

text \<open>
  Modelled from the spec: \<open>MetadataDB\<close> belongs to \<open>db.py\<close>, which is not among the
  sources. The spec describes the metadata store as a collaborator that is called once per
  run with the run's record and persists it; \<open>store_metadata\<close> appends the record to the
  rows kept under the database path.
\<close>

definition store_metadata :: "string \<Rightarrow> metadata \<Rightarrow> os_state \<Rightarrow> os_state" where
  "store_metadata db_path row st = st\<lparr>metadata_db := metadata_db st @ [(db_path, row)]\<rparr>"

definition processor_calling :: "processor_call \<Rightarrow> os_state \<Rightarrow> os_state" where
  "processor_calling c st = st\<lparr>processor_calls := processor_calls st @ [c]\<rparr>"

definition CURATOR_DEFAULT_CACHE_DIR :: string where
  "CURATOR_DEFAULT_CACHE_DIR = ''~/.cache/curator''"

definition as_dataset :: "externals \<Rightarrow> py_iterable option \<Rightarrow> py_error + Dataset option" where
  "as_dataset ext dataset =
     (case dataset of
        None \<Rightarrow> Inr None
      | Some (IsDataset d) \<Rightarrow> Inr (Some d)
      | Some (IsIterable g) \<Rightarrow> bind (from_generator ext g) (\<lambda>d. Inr (Some d)))"

definition cache_disabled :: "os_state \<Rightarrow> bool" where
  "cache_disabled st =
     (lower (case environ st ''CURATOR_DISABLE_CACHE'' of None \<Rightarrow> [] | Some v \<Rightarrow> v)
        \<in> set [''true'', ''1''])"

definition curator_cache_dir :: "externals \<Rightarrow> string option \<Rightarrow> os_state \<Rightarrow> string" where
  "curator_cache_dir ext working_dir st =
     (case working_dir of
        None \<Rightarrow> (case environ st ''CURATOR_CACHE_DIR'' of
                   Some v \<Rightarrow> v
                 | None \<Rightarrow> expanduser ext CURATOR_DEFAULT_CACHE_DIR)
      | Some d \<Rightarrow> d)"

definition dataset_hash_of :: "externals \<Rightarrow> Dataset option \<Rightarrow> string" where
  "dataset_hash_of ext dataset =
     (case dataset of Some d \<Rightarrow> fingerprint d | None \<Rightarrow> xxh64_hexdigest ext [])"

definition response_format_text :: "externals \<Rightarrow> PromptFormatter \<Rightarrow> string" where
  "response_format_text ext formatter =
     (case response_format formatter of
        Some format \<Rightarrow> py_str ext (model_json_schema format)
      | None \<Rightarrow> ''text'')"

definition parse_func_source_of :: "externals \<Rightarrow> PromptFormatter \<Rightarrow> py_error + string" where
  "parse_func_source_of ext formatter =
     (case parse_func formatter of
        Some f \<Rightarrow> get_function_source ext f
      | None \<Rightarrow> Inr [])"

definition LLM_call ::
    "externals \<Rightarrow> LLM \<Rightarrow> py_iterable option \<Rightarrow> string option \<Rightarrow> bool \<Rightarrow> os_state
       \<Rightarrow> (py_error + Dataset) \<times> os_state" where
  "LLM_call ext self dataset_arg working_dir batch_cancel st =
     (case as_dataset ext dataset_arg of
        Inl e \<Rightarrow> (Inl e, st)
      | Inr dataset \<Rightarrow>
          (let formatter = prompt_formatter self;
               cache_dir = curator_cache_dir ext working_dir st;
               dataset_hash = dataset_hash_of ext dataset;
               disable_cache = cache_disabled st;
               hashed = hash_fingerprint ext self dataset_hash disable_cache st;
               fingerprint' = fst hashed;
               st1 = snd hashed;
               metadata_db_path = path_join cache_dir ''metadata.db''
           in case get_function_source ext (prompt_func formatter) of
                Inl e \<Rightarrow> (Inl e, st1)
              | Inr prompt_func_source \<Rightarrow>
                  (case parse_func_source_of ext formatter of
                     Inl e \<Rightarrow> (Inl e, st1)
                   | Inr parse_func_source \<Rightarrow>
                       (let metadata_dict =
                              \<lparr> timestamp = clock st1,
                                md_dataset_hash = dataset_hash,
                                md_prompt_func = prompt_func_source,
                                md_parse_func = parse_func_source,
                                md_model_name = model_name formatter,
                                md_response_format = response_format_text ext formatter,
                                run_hash = fingerprint',
                                md_batch_mode = batch_mode self \<rparr>;
                            st2 = store_metadata metadata_db_path metadata_dict st1;
                            run_cache_dir = path_join cache_dir fingerprint'
                        in if batch_cancel
                           then
                             (if processor_class (request_processor self) \<noteq> OpenAIBatch
                              then (Inl (ValueError
                                           ''batch_cancel can only be used with batch mode''),
                                    st2)
                              else (cancel_batches (request_processor self) run_cache_dir,
                                    processor_calling (CancelBatches run_cache_dir) st2))
                           else
                             (let parse_func_hash =
                                    get_function_hash ext (parse_func formatter)
                              in (run (request_processor self) dataset run_cache_dir
                                    parse_func_hash formatter,
                                  processor_calling (Run run_cache_dir parse_func_hash)
                                    st2))))))"

section \<open>The Prompter entry point\<close>

subsection \<open>Hashing a function\<close>

text \<open>
  \<open>_get_function_hash\<close> of \<open>prompter.py\<close> sets out to rebuild the function over a
  standardised code object and minimal globals and to pickle the result. Its first
  statement calls \<open>types.CodeType\<close> with sixteen positional arguments, the thirteenth
  being the string \<open>"1"\<close> where the source's comment expects the line number. The
  constructor takes an integer there (and from Python 3.11 on it takes an integer at the
  fourteenth place, where the source passes the line table), so the call raises
  \<open>TypeError\<close> for every code object, and nothing after it is reached. The model gives
  the constructor the sixteen arguments in the order of the call; the argument at the
  place of the line number is either an integer or a string. The two methods that
  \<open>PathIndependentPickler\<close> adds are never called by the sources.
\<close>

datatype code_argument = IntArgument int | StrArgument string

definition CodeType ::
    "int \<Rightarrow> int \<Rightarrow> int \<Rightarrow> int \<Rightarrow> int \<Rightarrow> int \<Rightarrow> string \<Rightarrow> py_const list \<Rightarrow> string list
       \<Rightarrow> string list \<Rightarrow> string \<Rightarrow> string \<Rightarrow> code_argument \<Rightarrow> string \<Rightarrow> string list
       \<Rightarrow> string list \<Rightarrow> py_error + py_code" where
  "CodeType argcount posonlyargcount kwonlyargcount nlocals stacksize flags codestring
       constants names varnames filename name firstlineno linetable freevars cellvars =
     (case firstlineno of
        StrArgument s \<Rightarrow> Inl (TypeError ''an integer is required'')
      | IntArgument n \<Rightarrow>
          Inr \<lparr> co_argcount = argcount,
                co_posonlyargcount = posonlyargcount,
                co_kwonlyargcount = kwonlyargcount,
                co_nlocals = nlocals,
                co_stacksize = stacksize,
                co_flags = flags,
                co_code = codestring,
                co_consts = constants,
                co_names = names,
                co_varnames = varnames,
                co_filename = filename,
                co_name = name,
                co_firstlineno = n,
                co_linetable = linetable,
                co_freevars = freevars,
                co_cellvars = cellvars \<rparr>)"

definition standardize_const :: "py_const \<Rightarrow> py_const" where
  "standardize_const c = (case c of Scalar v \<Rightarrow> Scalar v | Collection items \<Rightarrow> Collection (sort items))"

definition prompter_get_function_hash ::
    "externals \<Rightarrow> py_function option \<Rightarrow> py_error + string" where
  "prompter_get_function_hash ext func =
     (case func of
        None \<Rightarrow> Inr (xxh64_hexdigest ext [])
      | Some f \<Rightarrow>
          bind (CodeType
                  (co_argcount (fn_code f))
                  (co_posonlyargcount (fn_code f))
                  (co_kwonlyargcount (fn_code f))
                  (co_nlocals (fn_code f))
                  (co_stacksize (fn_code f))
                  (co_flags (fn_code f))
                  (co_code (fn_code f))
                  (map standardize_const (co_consts (fn_code f)))
                  (sort (co_names (fn_code f)))
                  (sort (co_varnames (fn_code f)))
                  ''standardized''
                  (co_name (fn_code f))
                  (StrArgument ''1'')
                  (co_linetable (fn_code f))
                  (sort (co_freevars (fn_code f)))
                  (sort (co_cellvars (fn_code f)))) (\<lambda>code.
          (case map_of (fn_globals f) ''__builtins__'' of
             None \<Rightarrow> Inl (KeyError ''__builtins__'')
           | Some builtins \<Rightarrow>
               (let new_func =
                      \<lparr> fn_code = code,
                        fn_globals = [(''__builtins__'', builtins)],
                        fn_name = fn_name f,
                        fn_defaults = fn_defaults f,
                        fn_closure = fn_closure f,
                        fn_module = None,
                        fn_qualname = fn_name f,
                        fn_kwdefaults = fn_kwdefaults f,
                        fn_annotations = fn_annotations f \<rparr>
                in Inr (xxh64_hexdigest ext (dill_dump ext new_func))))))"

subsection \<open>The object and its construction\<close>

text \<open>
  The request processors of \<open>Prompter\<close>, by the arguments they are constructed with: the
  sampling parameters go to the processor and nowhere else. The older \<open>PromptFormatter\<close>
  takes no generation parameters; its field of the shared record stays empty. The log
  messages of the constructor are not modelled.
\<close>

record sampling =
  temperature :: "real option"
  top_p :: "real option"
  presence_penalty :: "real option"
  frequency_penalty :: "real option"

datatype prompter_processor =
    OpenAIBatchRequestProcessor string int sampling bool bool
  | OpenAIOnlineRequestProcessor string sampling
  | LiteLLMOnlineRequestProcessor string sampling

record Prompter =
  prompt_formatter :: PromptFormatter
  batch_mode :: bool
  backend :: string
  request_processor :: prompter_processor

fun contains :: "string \<Rightarrow> string \<Rightarrow> bool" where
  "contains sub [] = (sub = [])"
| "contains sub (c # cs) = (take (length sub) (c # cs) = sub \<or> contains sub cs)"

definition determine_backend :: "externals \<Rightarrow> string \<Rightarrow> pydantic_model option \<Rightarrow> string" where
  "determine_backend ext name format =
     (let name' = lower name in
      if format \<noteq> None \<and> check_structured_output_support ext name' then ''openai''
      else if format = None \<and> list_ex (\<lambda>x. contains x name') [''gpt-'', ''o1-preview'', ''o1-mini'']
      then ''openai''
      else ''litellm'')"

definition Prompter_init ::
    "externals \<Rightarrow> string \<Rightarrow> py_function \<Rightarrow> py_function option \<Rightarrow> pydantic_model option
       \<Rightarrow> string option \<Rightarrow> bool \<Rightarrow> int option \<Rightarrow> sampling \<Rightarrow> bool \<Rightarrow> bool
       \<Rightarrow> py_error + Prompter" where
  "Prompter_init ext name prompt parse format backend_arg batch batch_size sampling_args
       delete_successful_batch_files delete_failed_batch_files =
     (if signature_parameters ext prompt > 1
      then Inl (ValueError ''prompt_func must take one argument or less'')
      else if (case parse of None \<Rightarrow> False | Some f \<Rightarrow> signature_parameters ext f \<noteq> 2)
      then Inl (ValueError ''parse_func must take exactly 2 arguments'')
      else
        (let formatter = \<lparr> model_name = name, prompt_func = prompt, parse_func = parse,
                           response_format = format, generation_params = [] \<rparr>;
             backend' = (case backend_arg of Some b \<Rightarrow> b
                         | None \<Rightarrow> determine_backend ext name format);
             built = (\<lambda>processor.
               Inr \<lparr> Prompter.prompt_formatter = formatter,
                     Prompter.batch_mode = batch,
                     Prompter.backend = backend',
                     Prompter.request_processor = processor \<rparr>)
         in if backend' = ''openai''
            then (if batch
                  then built (OpenAIBatchRequestProcessor name
                                (case batch_size of None \<Rightarrow> 1000 | Some n \<Rightarrow> n)
                                sampling_args delete_successful_batch_files
                                delete_failed_batch_files)
                  else built (OpenAIOnlineRequestProcessor name sampling_args))
            else if backend' = ''litellm''
            then built (LiteLLMOnlineRequestProcessor name sampling_args)
            else Inl (ValueError (''Unknown backend: '' @ backend'))))"

subsection \<open>The fingerprint\<close>

text \<open>The fingerprint that \<open>_completions\<close> computes to name the run's directory.\<close>

definition Prompter_fingerprint :: "externals \<Rightarrow> Prompter \<Rightarrow> Dataset option \<Rightarrow> py_error + string" where
  "Prompter_fingerprint ext self dataset =
     (let formatter = Prompter.prompt_formatter self;
          dataset_hash =
            (case dataset of Some d \<Rightarrow> fingerprint d | None \<Rightarrow> xxh64_hexdigest ext [])
      in bind (prompter_get_function_hash ext (Some (prompt_func formatter)))
           (\<lambda>prompt_func_hash.
         bind (prompter_get_function_hash ext (parse_func formatter)) (\<lambda>parse_func_hash.
         Inr (xxh64_hexdigest ext
                (join ''_''
                   [dataset_hash,
                    prompt_func_hash,
                    model_name formatter,
                    (case response_format formatter of
                       Some format \<Rightarrow> schema_json ext format
                     | None \<Rightarrow> ''text''),
                    str_bool (Prompter.batch_mode self),
                    Prompter.backend self])))))"

section \<open>Example values\<close>

text \<open>
  Concrete inputs at which the theorems below are instantiated. \<open>example_ext\<close> gives every
  collaborator a simple stand-in: the digest marks its input, a function pickles to its
  name, a list of parameters renders as its keys and integer values.
\<close>

definition example_code :: py_code where
  "example_code =
     \<lparr> co_argcount = 1, co_posonlyargcount = 0, co_kwonlyargcount = 0, co_nlocals = 1,
       co_stacksize = 2, co_flags = 3, co_code = ''|row|'', co_consts = [Scalar ''None''],
       co_names = [], co_varnames = [''row''], co_filename = ''/home/user/job.py'',
       co_name = ''prompt'', co_firstlineno = 12, co_linetable = [], co_freevars = [],
       co_cellvars = [] \<rparr>"

definition example_function :: py_function where
  "example_function =
     \<lparr> fn_code = example_code, fn_globals = [(''__builtins__'', ''builtins'')],
       fn_name = ''prompt'', fn_defaults = None, fn_closure = None,
       fn_module = Some ''job'', fn_qualname = ''prompt'', fn_kwdefaults = None,
       fn_annotations = [] \<rparr>"

definition example_formatter :: PromptFormatter where
  "example_formatter =
     \<lparr> model_name = ''claude-3-5-haiku'', prompt_func = example_function, parse_func = None,
       response_format = None, generation_params = [] \<rparr>"

definition example_dataset :: Dataset where
  "example_dataset = \<lparr> fingerprint = ''d41d8cd9'', rows = [] \<rparr>"

definition example_request_processor :: "processor_class \<Rightarrow> string \<Rightarrow> request_processor" where
  "example_request_processor cls name =
     \<lparr> processor_class = cls,
       request_processor.backend = name,
       cancel_batches = (\<lambda>dir. Inr example_dataset),
       run = (\<lambda>dataset dir parse_hash formatter. Inr example_dataset) \<rparr>"

definition example_render :: "(string \<times> json) \<Rightarrow> string" where
  "example_render kv =
     fst kv @ ''='' @ (case snd kv of JInt i \<Rightarrow> str_int i | JString s \<Rightarrow> s | _ \<Rightarrow> ''?'') @ '';''"

definition example_ext :: externals where
  "example_ext =
     \<lparr> py_str = (\<lambda>v. ''{}''),
       str_items = (\<lambda>items. concat (map example_render items)),
       xxh64_hexdigest = (\<lambda>s. ''xxh64:'' @ s),
       pickler_dump = fn_name,
       dill_dump = fn_name,
       schema_json = class_name,
       getsource = (\<lambda>f. Inr (fn_name f)),
       signature_parameters = (\<lambda>f. nat (co_argcount (fn_code f))),
       expanduser = (\<lambda>p. ''/home/user'' @ drop 1 p),
       from_generator = (\<lambda>g. Inr example_dataset),
       factory_create = (\<lambda>params name batch format backend_arg params'.
          Inr (example_request_processor (if batch then OpenAIBatch else OpenAIOnline)
                 (case backend_arg of None \<Rightarrow> ''openai'' | Some b \<Rightarrow> b))),
       completion_cost = (\<lambda>name prompt completion. Inr 0),
       get_max_tokens = (\<lambda>name. Inr (JInt 4096)),
       handle_response_model = (\<lambda>format msgs. Inr [(''messages'', msgs)]),
       parse_response_message = (\<lambda>formatter raw. (Some raw, None)),
       check_structured_output_support = (\<lambda>name. False) \<rparr>"

definition example_counts :: MessageBatchRequestCounts where
  "example_counts =
     \<lparr> canceled = 0, errored = 0, expired = 0, succeeded = 0, processing = 3 \<rparr>"

definition example_message_batch :: "string \<Rightarrow> MessageBatch" where
  "example_message_batch st =
     \<lparr> mb_id = ''msgbatch_01'', mb_created_at = ''2024-12-01T00:00:00'', ended_at = None,
       processing_status = st, mb_request_counts = example_counts \<rparr>"

definition example_tracked :: GenericBatch where
  "example_tracked =
     \<lparr> request_file = Some ''requests_0.jsonl'', batch_id = ''msgbatch_01'',
       created_at = ''2024-12-01T00:00:00'', finished_at = None, status = SUBMITTED,
       api_key_suffix = ''1234'',
       request_counts = parse_api_specific_request_counts example_counts,
       raw_batch = example_message_batch ''in_progress'', raw_status = ''in_progress'' \<rparr>"

definition example_processor ::
    "(string \<Rightarrow> py_error + MessageBatch) \<Rightarrow> (string \<Rightarrow> py_error + MessageBatch)
       \<Rightarrow> AnthropicBatchRequestProcessor" where
  "example_processor retrieve cancel =
     \<lparr> config_model = ''claude-3-5-haiku'',
       AnthropicBatchRequestProcessor.prompt_formatter = example_formatter,
       api_key = ''sk-ant-key-1234'',
       submitted_batches = [''msgbatch_01'' \<mapsto> example_tracked],
       batches_retrieve = retrieve,
       batches_cancel = cancel,
       status_equals = (\<lambda>s t. False) \<rparr>"

definition example_world :: world where
  "example_world = \<lparr> logged = [], calls = [] \<rparr>"


definition example_os :: os_state where
  "example_os =
     \<lparr> environ = Map.empty, entropy = (\<lambda>n. char_of n), entropy_pos = 0,
       clock = ''2024-12-01T00:00:00'', metadata_db = [], processor_calls = [] \<rparr>"

text \<open>The object that \<open>LLM.__init__\<close> builds over \<open>example_ext\<close> from the parameters \<open>d\<close>.\<close>

definition example_llm :: "bool \<Rightarrow> py_dict \<Rightarrow> LLM" where
  "example_llm batch d =
     \<lparr> LLM.prompt_formatter = example_formatter\<lparr>generation_params := remove_none_values d\<rparr>,
       LLM.batch_mode = batch,
       LLM.request_processor =
         example_request_processor (if batch then OpenAIBatch else OpenAIOnline) ''openai'' \<rparr>"

definition example_os_no_cache :: os_state where
  "example_os_no_cache = example_os\<lparr>environ := [''CURATOR_DISABLE_CACHE'' \<mapsto> ''True'']\<rparr>"

text \<open>An entropy source that delivers the same byte again and again.\<close>

definition example_os_constant_entropy :: os_state where
  "example_os_constant_entropy = example_os_no_cache\<lparr>entropy := (\<lambda>n. CHR ''a'')\<rparr>"

definition example_sampling :: "real option \<Rightarrow> sampling" where
  "example_sampling t =
     \<lparr> temperature = t, top_p = None, presence_penalty = None, frequency_penalty = None \<rparr>"

text \<open>The object that \<open>Prompter.__init__\<close> builds over \<open>example_ext\<close> for the model
  \<open>gpt-4o-mini\<close> and the temperature \<open>t\<close>.\<close>

definition example_prompter :: "real option \<Rightarrow> Prompter" where
  "example_prompter t =
     \<lparr> Prompter.prompt_formatter = example_formatter\<lparr>model_name := ''gpt-4o-mini''\<rparr>,
       Prompter.batch_mode = False,
       Prompter.backend = ''openai'',
       Prompter.request_processor =
         OpenAIOnlineRequestProcessor ''gpt-4o-mini'' (example_sampling t) \<rparr>"

section \<open>The Anthropic batch request processor: theorems\<close>

subsection \<open>Batch status\<close>

text \<open>The statuses \<open>in_progress\<close> and \<open>ended\<close> are mapped, and nothing is raised.\<close>

lemma parse_api_specific_batch_object_in_progress:
  "\<exists>g. parse_api_specific_batch_object k
         (MessageBatchObject (b\<lparr>processing_status := ''in_progress''\<rparr>)) rf = Inr g
       \<and> status g = SUBMITTED \<and> raw_status g = ''in_progress''"
  by (simp add: parse_api_specific_batch_object_def Let_def)

lemma parse_api_specific_batch_object_ended:
  "\<exists>g. parse_api_specific_batch_object k
         (MessageBatchObject (b\<lparr>processing_status := ''ended''\<rparr>)) rf = Inr g
       \<and> status g = FINISHED \<and> raw_status g = ''ended''"
  by (simp add: parse_api_specific_batch_object_def Let_def)

text \<open>No other status is ever assigned; in particular none is CANCELLED.\<close>

lemma parse_api_specific_batch_object_status:
  "parse_api_specific_batch_object k batch rf = Inr g
   \<Longrightarrow> status g = SUBMITTED \<or> status g = FINISHED"
  by (auto simp: parse_api_specific_batch_object_def Let_def split: batch_object.splits if_splits)

lemma parse_api_specific_batch_object_generic:
  "parse_api_specific_batch_object k (GenericBatchObject g) rf =
     Inl (AttributeError ''GenericBatch object has no attribute processing_status'')"
  by (simp add: parse_api_specific_batch_object_def)

text \<open>
  C9. The provider documents the statuses \<open>in_progress\<close>, \<open>canceling\<close> and \<open>ended\<close>, and
  the function's docstring lists them. The code tests for the spelling \<open>cancelling\<close>, so a
  batch whose status is \<open>canceling\<close> reaches the last branch: the function raises
  \<open>ValueError\<close> instead of returning a batch with status SUBMITTED.
\<close>

theorem parse_api_specific_batch_object_canceling:
  "parse_api_specific_batch_object k
     (MessageBatchObject (b\<lparr>processing_status := ''canceling''\<rparr>)) rf =
   Inl (ValueError ''Unknown batch status: canceling'')"
  by (simp add: parse_api_specific_batch_object_def)

subsection \<open>Retrieval\<close>

text \<open>When the provider finds the batch and the tracker knows it, \<open>retrieve_batch\<close>
  returns the batch that \<open>parse_api_specific_batch_object\<close> makes of the provider's answer
  and the tracked request file, and logs nothing.\<close>

lemma retrieve_batch_found:
  assumes "batches_retrieve self (batch_id batch) = Inr b"
      and "submitted_batches self (mb_id b) = Some tracked"
      and "parse_api_specific_batch_object (api_key self) (MessageBatchObject b)
             (request_file tracked) = Inr g"
  shows "retrieve_batch self batch w =
           (Inr (Some g), calling (BatchesRetrieve (batch_id batch)) w)"
  using assms by (simp add: retrieve_batch_def Let_def)

text \<open>Whatever exception the provider call raises, \<open>retrieve_batch\<close> raises \<open>TypeError\<close>
  and logs nothing.\<close>

lemma retrieve_batch_provider_exception:
  assumes "batches_retrieve self (batch_id batch) = Inl e"
  shows "retrieve_batch self batch w =
           (Inl (TypeError (''catching classes that do not inherit from '' @
                            ''BaseException is not allowed'')),
            calling (BatchesRetrieve (batch_id batch)) w)"
  using assms
  by (simp add: retrieve_batch_def Let_def imported_NotFoundError_is_exception_class_def)

text \<open>
  C7. With a provider that reports the batch as not found, \<open>retrieve_batch\<close> does not
  return \<open>None\<close> and logs no warning: the \<open>except\<close> clause names a class that is not an
  exception, so matching the provider's exception against it raises \<open>TypeError\<close>, which
  leaves the function. This holds for every processor, batch and world.
\<close>

theorem retrieve_batch_not_found_raises:
  "retrieve_batch (self\<lparr>batches_retrieve := (\<lambda>i. Inl (NotFoundError m))\<rparr>) batch w =
     (Inl (TypeError (''catching classes that do not inherit from '' @
                      ''BaseException is not allowed'')),
      calling (BatchesRetrieve (batch_id batch)) w)"
  by (simp add: retrieve_batch_def Let_def imported_NotFoundError_is_exception_class_def)

subsection \<open>Cancellation\<close>

text \<open>
  Every path of \<open>cancel_batch\<close> that gets past the retrieval ends in
  \<open>parse_api_specific_batch_object\<close> applied to the batch that \<open>retrieve_batch\<close> returned,
  which is a \<open>GenericBatch\<close> and has no \<open>processing_status\<close>. So \<open>cancel_batch\<close> never
  returns a batch, whatever the provider answers and whatever the comparison with
  \<open>"ended"\<close> yields.
\<close>

lemma cancel_batch_never_returns:
  "\<exists>e. fst (cancel_batch self batch w) = Inl e"
  by (auto simp: cancel_batch_def parse_api_specific_batch_object_generic Let_def
           split: option.splits prod.splits sum.splits)

text \<open>
  C1. A tracked batch that the provider reports as in progress, with a provider that
  accepts the cancel call: the cancel call is issued and logged as successful, and then
  \<open>cancel_batch\<close> raises \<open>AttributeError\<close> twice, the second time out of the exception
  handler. No batch with status CANCELLED is returned.
\<close>

theorem cancel_batch_in_progress_raises:
  "cancel_batch
     (example_processor (\<lambda>i. Inr (example_message_batch ''in_progress''))
        (\<lambda>i. Inr (example_message_batch ''canceling'')))
     example_tracked example_world =
   (Inl (AttributeError ''GenericBatch object has no attribute processing_status''),
    \<lparr> logged = [LogInfo ''Successfully cancelled batch: msgbatch_01'',
                LogError (''Failed to cancel batch msgbatch_01: '' @
                          ''GenericBatch object has no attribute processing_status'')],
      calls = [BatchesRetrieve ''msgbatch_01'', BatchesCancel ''msgbatch_01''] \<rparr>)"
  by (simp add: cancel_batch_def retrieve_batch_def example_processor_def example_tracked_def
        example_message_batch_def parse_api_specific_batch_object_def example_world_def
        logging_def calling_def error_message_def Let_def)

subsection \<open>Parsing a downloaded result\<close>

lemma bind_Inr: "bind m f = Inr y \<Longrightarrow> \<exists>x. m = Inr x \<and> f x = Inr y"
  by (cases m) (simp_all add: bind_def)

text \<open>A result of type \<open>errored\<close> that carries its error gives a response with no message
  and the error's text.\<close>

lemma parse_api_specific_response_errored:
  "parse_api_specific_response ext self
     (JObject [(''custom_id'', JString cid),
               (''result'', JObject [(''type'', JString ''errored''), (''error'', err)])])
     request batch w =
   (Inr (respond
           (JObject [(''custom_id'', JString cid),
                     (''result'', JObject [(''type'', JString ''errored''), (''error'', err)])])
           request batch None (Some [to_str ext err]) None None),
    logging (result_warning ext (JString cid) (JString ''errored'') err) w)"
  by (simp add: parse_api_specific_response_def bind_def getitem_def)

lemma parse_succeeded_parsed:
  assumes "parse_succeeded ext self raw request = Inr (message, errors, usage, cost)"
  shows "\<exists>t. message = fst (parse_response_message ext
                              (AnthropicBatchRequestProcessor.prompt_formatter self) t)
           \<and> errors = snd (parse_response_message ext
                              (AnthropicBatchRequestProcessor.prompt_formatter self) t)"
  using assms unfolding parse_succeeded_def
  by (auto dest!: bind_Inr) (metis fst_conv snd_conv)

text \<open>
  If the prompt formatter's \<open>parse_response_message\<close> always returns either a message or a
  non-empty list of errors, as the spec says of it, then every response that
  \<open>parse_api_specific_response\<close> returns has exactly one of the two populated.
\<close>

lemma parse_api_specific_response_exactly_one:
  assumes helper: "\<And>formatter t.
             (fst (parse_response_message ext formatter t) \<noteq> None) \<noteq>
             errors_populated (snd (parse_response_message ext formatter t))"
      and ret: "fst (parse_api_specific_response ext self raw request batch w) = Inr r"
  shows "message_populated r \<noteq> errors_populated (response_errors r)"
proof -
  obtain result_type
    where rt: "bind (getitem raw ''result'') (\<lambda>r. getitem r ''type'') = Inr result_type"
    using ret by (cases "bind (getitem raw ''result'') (\<lambda>r. getitem r ''type'')")
                 (simp_all add: parse_api_specific_response_def)
  show ?thesis
  proof (cases "result_type = JString ''succeeded''")
    case False
    with ret rt show ?thesis
      by (auto simp: parse_api_specific_response_def respond_def message_populated_def
                 errors_populated_def
               split: sum.splits)
  next
    case True
    with ret rt obtain message errors usage cost where
      ps: "parse_succeeded ext self raw request = Inr (message, errors, usage, cost)"
      and r: "r = respond raw request batch message errors (Some usage) (Some cost)"
      by (auto simp: parse_api_specific_response_def split: sum.splits)
    from parse_succeeded_parsed[OF ps] helper r show ?thesis
      by (auto simp: message_populated_def respond_def)
  qed
qed

text \<open>
  C6. A result of type \<open>canceled\<close> (or \<open>expired\<close>) carries no \<open>error\<close> entry. The branch
  for results that did not succeed reads \<open>raw_response["result"]["error"]\<close> whatever the
  type is, so for such a result the function raises \<open>KeyError\<close> instead of returning a
  response with its errors populated.
\<close>

theorem parse_api_specific_response_canceled_raises:
  "parse_api_specific_response ext self
     (JObject [(''custom_id'', JString ''0''),
               (''result'', JObject [(''type'', JString ''canceled'')])])
     request batch w = (Inl (KeyError ''error''), w)"
  by (simp add: parse_api_specific_response_def bind_def getitem_def)

subsection \<open>Custom ids and the input order\<close>



















section \<open>The LLM entry point: theorems\<close>

subsection \<open>Parameters and their rendering\<close>

lemma dict_set_member: "(k, v) \<in> set (dict_set d k v)"
  by (induction d) auto

lemma remove_none_values_dict_set_None:
  "k \<notin> fst ` set d \<Longrightarrow> remove_none_values (dict_set d k JNull) = remove_none_values d"
  by (induction d) (auto simp: remove_none_values_def)

lemma count_dict_set:
  "map_of d k \<noteq> Some v \<Longrightarrow>
   count (mset (dict_set d k v)) (k, v) = Suc (count (mset d) (k, v))"
proof (induction d)
  case Nil
  then show ?case by simp
next
  case (Cons a d)
  obtain k' v' where a: "a = (k', v')" by (cases a)
  show ?case
  proof (cases "k' = k")
    case True
    with Cons.prems a have "v' \<noteq> v" by simp
    with True a show ?thesis by simp
  next
    case False
    with Cons.prems a have "map_of d k \<noteq> Some v" by simp
    from Cons.IH[OF this] False a show ?thesis by simp
  qed
qed

lemma count_remove_none_values:
  "v \<noteq> JNull \<Longrightarrow> count (mset (remove_none_values d)) (k, v) = count (mset d) (k, v)"
  by (simp add: remove_none_values_def)

text \<open>Setting a parameter to a value it did not have changes the sorted list of the
  parameters that are not \<open>None\<close>.\<close>

lemma sorted_items_differ:
  assumes "v \<noteq> JNull" "map_of d k \<noteq> Some v"
  shows "sort_key fst (remove_none_values (dict_set d k v)) \<noteq>
         sort_key fst (remove_none_values d)"
proof
  assume "sort_key fst (remove_none_values (dict_set d k v)) =
          sort_key fst (remove_none_values d)"
  then have "mset (sort_key fst (remove_none_values (dict_set d k v))) =
             mset (sort_key fst (remove_none_values d))"
    by simp
  then have "mset (remove_none_values (dict_set d k v)) = mset (remove_none_values d)"
    by simp
  then have "count (mset (remove_none_values (dict_set d k v))) (k, v) =
             count (mset (remove_none_values d)) (k, v)"
    by simp
  with count_dict_set[OF assms(2)] show False
    by (simp only: count_remove_none_values[OF assms(1)])
qed

lemma remove_none_values_dict_set_nonempty:
  assumes "v \<noteq> JNull"
  shows "remove_none_values (dict_set d k v) \<noteq> []"
proof -
  have "(k, v) \<in> set (remove_none_values (dict_set d k v))"
    using assms dict_set_member[of k v d] by (simp add: remove_none_values_def)
  then show ?thesis by auto
qed

lemma LLM_init_fields:
  assumes "LLM_init ext name prompt parse format batch backend_arg gp bp = Inr llm"
  shows "LLM.prompt_formatter llm =
           \<lparr> model_name = name, prompt_func = prompt, parse_func = parse,
             response_format = format,
             generation_params =
               remove_none_values (case gp of None \<Rightarrow> [] | Some d \<Rightarrow> d) \<rparr>"
    and "LLM.batch_mode llm = batch"
  using assms by (auto simp: LLM_init_def bind_def Let_def split: sum.splits)

lemma example_LLM_init:
  "LLM_init example_ext ''claude-3-5-haiku'' example_function None None batch None (Some d) None
     = Inr (example_llm batch d)"
  by (simp add: LLM_init_def example_ext_def example_llm_def example_formatter_def bind_def)

lemma example_sorted_items:
  "sort_key fst [(''max_tokens'', JInt 100), (''temperature'', JInt 1)] =
     [(''max_tokens'', JInt 100), (''temperature'', JInt 1)]"
  by code_simp

lemma example_str_int: "str_int 100 = ''100''" "str_int 1 = ''1''"
  by code_simp+

subsection \<open>Parameters that are None\<close>

text \<open>
  C10. Constructing an \<open>LLM\<close> from the parameters \<open>d\<close> extended by an entry \<open>k: None\<close>,
  with \<open>k\<close> a key that \<open>d\<close> does not have, gives the same fingerprint as constructing it
  from \<open>d\<close>, all other arguments being the same, the factory resolving the same backend
  for both, and caching enabled.
\<close>

theorem none_valued_generation_param_keeps_fingerprint:
  assumes "LLM_init ext name prompt parse format batch backend_arg (Some d) bp = Inr llm"
      and "LLM_init ext name prompt parse format batch backend_arg
             (Some (dict_set d k JNull)) bp = Inr llm'"
      and "k \<notin> fst ` set d"
      and "request_processor.backend (LLM.request_processor llm') =
           request_processor.backend (LLM.request_processor llm)"
  shows "hash_fingerprint ext llm' dataset_hash False st =
         hash_fingerprint ext llm dataset_hash False st"
  using LLM_init_fields[OF assms(1)] LLM_init_fields[OF assms(2)] assms(3,4)
  by (simp add: hash_fingerprint_def fingerprint_str_def remove_none_values_dict_set_None)

theorem none_valued_generation_param_keeps_fingerprint_witness:
  "LLM_init example_ext ''claude-3-5-haiku'' example_function None None False None
      (Some [(''max_tokens'', JInt 100)]) None
     = Inr (example_llm False [(''max_tokens'', JInt 100)])
   \<and> LLM_init example_ext ''claude-3-5-haiku'' example_function None None False None
      (Some (dict_set [(''max_tokens'', JInt 100)] ''temperature'' JNull)) None
     = Inr (example_llm False [(''max_tokens'', JInt 100), (''temperature'', JNull)])
   \<and> ''temperature'' \<notin> fst ` set [(''max_tokens'', JInt 100)]
   \<and> hash_fingerprint example_ext
        (example_llm False [(''max_tokens'', JInt 100), (''temperature'', JNull)])
        ''d41d8cd9'' False example_os
     = hash_fingerprint example_ext (example_llm False [(''max_tokens'', JInt 100)])
        ''d41d8cd9'' False example_os"
  using none_valued_generation_param_keeps_fingerprint
          [of example_ext "''claude-3-5-haiku''" example_function None None False None
              "[(''max_tokens'', JInt 100)]" None
              "example_llm False [(''max_tokens'', JInt 100)]"
              "''temperature''"
              "example_llm False [(''max_tokens'', JInt 100), (''temperature'', JNull)]"
              "''d41d8cd9''" example_os]
        example_LLM_init[of False "[(''max_tokens'', JInt 100)]"]
        example_LLM_init[of False "[(''max_tokens'', JInt 100), (''temperature'', JNull)]"]
  by (simp add: example_llm_def)

subsection \<open>Parameters that are set\<close>

lemma example_contains: "contains ''gpt-'' (lower ''gpt-4o-mini'')"
  by code_simp

lemma example_Prompter_init:
  "Prompter_init example_ext ''gpt-4o-mini'' example_function None None None False None
     (example_sampling t) True False = Inr (example_prompter t)"
  using example_contains
  by (simp add: Prompter_init_def determine_backend_def example_ext_def example_function_def
        example_code_def example_prompter_def example_formatter_def Let_def)

text \<open>
  In \<open>LLM\<close>, with caching enabled and everything else the same, setting a generation
  parameter to a value other than \<open>None\<close> that it did not have before (a new parameter,
  or a new value of an existing one) changes the string that is hashed into the
  fingerprint: always when no parameter other than \<open>None\<close> was set before, and otherwise
  provided \<open>str\<close> does not render the two different sorted parameter lists as the same
  text. The fingerprint is the digest of that string.
\<close>

lemma generation_param_changes_fingerprint_string:
  assumes "LLM_init ext name prompt parse format batch backend_arg (Some d) bp = Inr llm"
      and "LLM_init ext name prompt parse format batch backend_arg (Some (dict_set d k v)) bp
             = Inr llm'"
      and "request_processor.backend (LLM.request_processor llm') =
           request_processor.backend (LLM.request_processor llm)"
      and "v \<noteq> JNull"
      and "map_of d k \<noteq> Some v"
      and "remove_none_values d \<noteq> [] \<Longrightarrow>
           str_items ext (sort_key fst (remove_none_values (dict_set d k v))) =
           str_items ext (sort_key fst (remove_none_values d)) \<Longrightarrow>
           sort_key fst (remove_none_values (dict_set d k v)) =
           sort_key fst (remove_none_values d)"
  shows "fingerprint_str ext llm' dataset_hash \<noteq> fingerprint_str ext llm dataset_hash
         \<and> hash_fingerprint ext llm' dataset_hash False st
             = (xxh64_hexdigest ext (fingerprint_str ext llm' dataset_hash), st)"
proof -
  note ne = remove_none_values_dict_set_nonempty[OF assms(4), of d k]
  have "fingerprint_str ext llm' dataset_hash \<noteq> fingerprint_str ext llm dataset_hash"
  proof (cases "remove_none_values d = []")
    case True
    then show ?thesis
      using LLM_init_fields[OF assms(1)] LLM_init_fields[OF assms(2)] assms(3) ne
      by (simp add: fingerprint_str_def Let_def)
  next
    case False
    with assms(6) sorted_items_differ[OF assms(4,5)]
    have "str_items ext (sort_key fst (remove_none_values (dict_set d k v))) \<noteq>
          str_items ext (sort_key fst (remove_none_values d))"
      by blast
    then show ?thesis
      using LLM_init_fields[OF assms(1)] LLM_init_fields[OF assms(2)] assms(3) ne False
      by (simp add: fingerprint_str_def Let_def)
  qed
  then show ?thesis by (simp add: hash_fingerprint_def)
qed

lemma example_generation_param_changes_fingerprint_string:
  "fingerprint_str example_ext
     (example_llm False [(''max_tokens'', JInt 100), (''temperature'', JInt 1)]) ''d41d8cd9''
     = ''d41d8cd9_xxh64:prompt_claude-3-5-haiku_text_False_openai_max_tokens=100;temperature=1;''
   \<and> fingerprint_str example_ext (example_llm False [(''max_tokens'', JInt 100)]) ''d41d8cd9''
     = ''d41d8cd9_xxh64:prompt_claude-3-5-haiku_text_False_openai_max_tokens=100;''
   \<and> fingerprint_str example_ext
       (example_llm False [(''max_tokens'', JInt 100), (''temperature'', JInt 1)]) ''d41d8cd9''
     \<noteq> fingerprint_str example_ext (example_llm False [(''max_tokens'', JInt 100)]) ''d41d8cd9''"
proof -
  have r: "remove_none_values [(''max_tokens'', JInt 100), (''temperature'', JInt 1)] =
             [(''max_tokens'', JInt 100), (''temperature'', JInt 1)]"
          "remove_none_values [(''max_tokens'', JInt 100)] = [(''max_tokens'', JInt 100)]"
    by (simp_all add: remove_none_values_def)
  have faithful:
    "str_items example_ext (sort_key fst (remove_none_values
        (dict_set [(''max_tokens'', JInt 100)] ''temperature'' (JInt 1)))) =
     str_items example_ext (sort_key fst (remove_none_values [(''max_tokens'', JInt 100)])) \<Longrightarrow>
     sort_key fst (remove_none_values
        (dict_set [(''max_tokens'', JInt 100)] ''temperature'' (JInt 1))) =
     sort_key fst (remove_none_values [(''max_tokens'', JInt 100)])"
    by (simp add: r example_sorted_items example_ext_def example_render_def example_str_int)
  have a: "fingerprint_str example_ext
      (example_llm False [(''max_tokens'', JInt 100), (''temperature'', JInt 1)]) ''d41d8cd9''
     = ''d41d8cd9_xxh64:prompt_claude-3-5-haiku_text_False_openai_max_tokens=100;temperature=1;''"
    by (simp add: fingerprint_str_def example_llm_def example_formatter_def
          example_function_def example_request_processor_def get_function_hash_def join_def
          str_bool_def r example_sorted_items example_ext_def example_render_def
          example_str_int)
  have b: "fingerprint_str example_ext (example_llm False [(''max_tokens'', JInt 100)])
      ''d41d8cd9''
     = ''d41d8cd9_xxh64:prompt_claude-3-5-haiku_text_False_openai_max_tokens=100;''"
    by (simp add: fingerprint_str_def example_llm_def example_formatter_def
          example_function_def example_request_processor_def get_function_hash_def join_def
          str_bool_def r example_ext_def example_render_def example_str_int)
  from generation_param_changes_fingerprint_string
         [of example_ext "''claude-3-5-haiku''" example_function None None False None
             "[(''max_tokens'', JInt 100)]" None
             "example_llm False [(''max_tokens'', JInt 100)]"
             "''temperature''" "JInt 1"
             "example_llm False [(''max_tokens'', JInt 100), (''temperature'', JInt 1)]"
             "''d41d8cd9''" example_os, OF _ _ _ _ _ faithful]
       example_LLM_init[of False "[(''max_tokens'', JInt 100)]"]
       example_LLM_init[of False "[(''max_tokens'', JInt 100), (''temperature'', JInt 1)]"]
  have "fingerprint_str example_ext
          (example_llm False [(''max_tokens'', JInt 100), (''temperature'', JInt 1)])
          ''d41d8cd9''
        \<noteq> fingerprint_str example_ext (example_llm False [(''max_tokens'', JInt 100)])
            ''d41d8cd9''"
    by (simp add: example_llm_def)
  with a b show ?thesis by simp
qed

subsection \<open>Caching disabled\<close>

lemma hash_fingerprint_keeps_stores:
  "processor_calls (snd (hash_fingerprint ext self h dc st)) = processor_calls st"
  "metadata_db (snd (hash_fingerprint ext self h dc st)) = metadata_db st"
  by (simp_all add: hash_fingerprint_def urandom_def Let_def)

text \<open>Without cancellation, the request processor is run once, in the directory named by
  the fingerprint.\<close>

lemma LLM_call_run:
  assumes "as_dataset ext dataset_arg = Inr dataset"
      and "get_function_source ext (prompt_func (LLM.prompt_formatter self)) = Inr s1"
      and "parse_func_source_of ext (LLM.prompt_formatter self) = Inr s2"
  shows "processor_calls (snd (LLM_call ext self dataset_arg wd False st)) =
           processor_calls st @
           [Run (path_join (curator_cache_dir ext wd st)
                   (fst (hash_fingerprint ext self (dataset_hash_of ext dataset)
                           (cache_disabled st) st)))
                (get_function_hash ext (parse_func (LLM.prompt_formatter self)))]"
  using assms
  by (simp add: LLM_call_def Let_def store_metadata_def processor_calling_def
        hash_fingerprint_keeps_stores)

lemma example_lower: "lower ''True'' = ''true''"
  by code_simp

lemma example_cache_disabled: "cache_disabled example_os_no_cache"
  by (simp add: cache_disabled_def example_os_no_cache_def example_os_def example_lower)

lemma example_seeds_differ:
  "map char_of [0 ..< (8::nat)] \<noteq> (map char_of [8 ..< (16::nat)] :: string)"
  by code_simp

lemma example_sources:
  "as_dataset example_ext None = Inr None"
  "get_function_source example_ext (prompt_func (LLM.prompt_formatter (example_llm b d)))
     = Inr ''prompt''"
  "parse_func_source_of example_ext (LLM.prompt_formatter (example_llm b d)) = Inr []"
  "get_function_hash example_ext (parse_func (LLM.prompt_formatter (example_llm b d)))
     = ''xxh64:''"
  by (simp_all add: example_ext_def as_dataset_def get_function_source_def
        parse_func_source_of_def example_llm_def example_formatter_def example_function_def
        get_function_hash_def)

lemma example_run_dir:
  "path_join (curator_cache_dir ext (Some ''/tmp/cache'') st) (''xxh64:'' @ s) =
     ''/tmp/cache/xxh64:'' @ s"
  by (simp add: path_join_def curator_cache_dir_def)

lemma hash_fingerprint_disabled:
  "hash_fingerprint ext self dataset_hash True st =
     (xxh64_hexdigest ext (map (entropy st) [entropy_pos st ..< entropy_pos st + 8]),
      st\<lparr>entropy_pos := entropy_pos st + 8\<rparr>)"
  by (simp add: hash_fingerprint_def urandom_def Let_def)

text \<open>What a run without cancellation leaves of the environment and the entropy source.\<close>

lemma LLM_call_run_state:
  assumes "as_dataset ext dataset_arg = Inr dataset"
      and "get_function_source ext (prompt_func (LLM.prompt_formatter self)) = Inr s1"
      and "parse_func_source_of ext (LLM.prompt_formatter self) = Inr s2"
  shows "environ (snd (LLM_call ext self dataset_arg wd False st)) = environ st"
    and "entropy (snd (LLM_call ext self dataset_arg wd False st)) = entropy st"
    and "entropy_pos (snd (LLM_call ext self dataset_arg wd False st)) =
           (if cache_disabled st then entropy_pos st + 8 else entropy_pos st)"
  using assms
  by (simp_all add: LLM_call_def Let_def store_metadata_def processor_calling_def
        hash_fingerprint_def urandom_def)

lemma cache_disabled_environ:
  "environ st' = environ st \<Longrightarrow> cache_disabled st' = cache_disabled st"
  by (simp add: cache_disabled_def)

lemma curator_cache_dir_environ:
  "environ st' = environ st \<Longrightarrow> curator_cache_dir ext wd st' = curator_cache_dir ext wd st"
  by (simp add: curator_cache_dir_def split: option.splits)

text \<open>With the flag set, two successive runs of the same job: the first names its
  directory by the next 8 bytes of the entropy source, the second by the 8 bytes after
  them.\<close>

lemma LLM_call_twice_disabled:
  assumes flag: "cache_disabled st"
      and ds: "as_dataset ext dataset_arg = Inr dataset"
      and s1: "get_function_source ext (prompt_func (LLM.prompt_formatter self)) = Inr s1"
      and s2: "parse_func_source_of ext (LLM.prompt_formatter self) = Inr s2"
  shows "processor_calls (snd (LLM_call ext self dataset_arg wd False st)) =
           processor_calls st @
           [Run (path_join (curator_cache_dir ext wd st)
                   (xxh64_hexdigest ext
                      (map (entropy st) [entropy_pos st ..< entropy_pos st + 8])))
                (get_function_hash ext (parse_func (LLM.prompt_formatter self)))]"
    and "processor_calls
           (snd (LLM_call ext self dataset_arg wd False
                   (snd (LLM_call ext self dataset_arg wd False st)))) =
           processor_calls st @
           [Run (path_join (curator_cache_dir ext wd st)
                   (xxh64_hexdigest ext
                      (map (entropy st) [entropy_pos st ..< entropy_pos st + 8])))
                (get_function_hash ext (parse_func (LLM.prompt_formatter self))),
            Run (path_join (curator_cache_dir ext wd st)
                   (xxh64_hexdigest ext
                      (map (entropy st) [entropy_pos st + 8 ..< entropy_pos st + 16])))
                (get_function_hash ext (parse_func (LLM.prompt_formatter self)))]"
proof -
  let ?st' = "snd (LLM_call ext self dataset_arg wd False st)"
  note state = LLM_call_run_state[OF ds s1 s2, of wd st]
  show first: "processor_calls ?st' =
           processor_calls st @
           [Run (path_join (curator_cache_dir ext wd st)
                   (xxh64_hexdigest ext
                      (map (entropy st) [entropy_pos st ..< entropy_pos st + 8])))
                (get_function_hash ext (parse_func (LLM.prompt_formatter self)))]"
    using LLM_call_run[OF ds s1 s2, of wd st] flag by (simp add: hash_fingerprint_disabled)
  have flag': "cache_disabled ?st'"
    using cache_disabled_environ[OF state(1)] flag by simp
  have dir': "curator_cache_dir ext wd ?st' = curator_cache_dir ext wd st"
    by (rule curator_cache_dir_environ[OF state(1)])
  have pos': "entropy_pos ?st' = entropy_pos st + 8"
    using state(3) flag by simp
  show "processor_calls (snd (LLM_call ext self dataset_arg wd False ?st')) =
           processor_calls st @
           [Run (path_join (curator_cache_dir ext wd st)
                   (xxh64_hexdigest ext
                      (map (entropy st) [entropy_pos st ..< entropy_pos st + 8])))
                (get_function_hash ext (parse_func (LLM.prompt_formatter self))),
            Run (path_join (curator_cache_dir ext wd st)
                   (xxh64_hexdigest ext
                      (map (entropy st) [entropy_pos st + 8 ..< entropy_pos st + 16])))
                (get_function_hash ext (parse_func (LLM.prompt_formatter self)))]"
    using LLM_call_run[OF ds s1 s2, of wd ?st'] flag' first
    by (simp add: hash_fingerprint_disabled dir' pos' state(2) add.assoc)
qed

lemma example_constant_entropy:
  "cache_disabled example_os_constant_entropy"
  "processor_calls example_os_constant_entropy = []"
  "map (entropy example_os_constant_entropy) [a ..< a + 8] = ''aaaaaaaa''"
proof -
  show "cache_disabled example_os_constant_entropy"
    by (simp add: cache_disabled_def example_os_constant_entropy_def example_os_no_cache_def
          example_os_def example_lower)
  show "processor_calls example_os_constant_entropy = []"
    by (simp add: example_os_constant_entropy_def example_os_no_cache_def example_os_def)
  have "map (\<lambda>n. CHR ''a'') [a ..< a + 8] = replicate 8 (CHR ''a'')"
    by (simp add: map_replicate_const)
  moreover have "replicate 8 (CHR ''a'') = ''aaaaaaaa''"
    by code_simp
  ultimately show "map (entropy example_os_constant_entropy) [a ..< a + 8] = ''aaaaaaaa''"
    by (simp add: example_os_constant_entropy_def)
qed

text \<open>
  C4, as stated, fails: the seed is random, not unique. When the entropy source delivers
  the same 8 bytes twice, two successive runs of the same job with the flag set name the
  same directory.
\<close>

theorem disabled_cache_directory_reused_counterexample:
  "cache_disabled example_os_constant_entropy
   \<and> processor_calls
       (snd (LLM_call example_ext (example_llm False []) None (Some ''/tmp/cache'') False
          (snd (LLM_call example_ext (example_llm False []) None (Some ''/tmp/cache'') False
                  example_os_constant_entropy)))) =
       [Run ''/tmp/cache/xxh64:aaaaaaaa'' ''xxh64:'',
        Run ''/tmp/cache/xxh64:aaaaaaaa'' ''xxh64:'']"
proof -
  have x: "xxh64_hexdigest example_ext s = ''xxh64:'' @ s" for s
    by (simp add: example_ext_def)
  have b: "map (entropy example_os_constant_entropy)
             [entropy_pos example_os_constant_entropy + 8 ..<
              entropy_pos example_os_constant_entropy + 16] = ''aaaaaaaa''"
    using example_constant_entropy(3)[of "entropy_pos example_os_constant_entropy + 8"]
    by (simp add: add.assoc)
  from LLM_call_twice_disabled(2)
         [OF example_constant_entropy(1) example_sources(1)
             example_sources(2,3)[of False "[]"], of "Some ''/tmp/cache''"]
  have "processor_calls
       (snd (LLM_call example_ext (example_llm False []) None (Some ''/tmp/cache'') False
          (snd (LLM_call example_ext (example_llm False []) None (Some ''/tmp/cache'') False
                  example_os_constant_entropy)))) =
       [Run ''/tmp/cache/xxh64:aaaaaaaa'' ''xxh64:'',
        Run ''/tmp/cache/xxh64:aaaaaaaa'' ''xxh64:'']"
    by (simp only: example_constant_entropy(2,3) b x example_sources(4) example_run_dir)
       simp
  with example_constant_entropy(1) show ?thesis by simp
qed

text \<open>
  C4, amended. When the disable-cache flag is set, the fingerprint is the digest of 8
  bytes drawn from the entropy source and is the same for every dataset hash and every
  \<open>LLM\<close> object, so it depends on no job content. \<open>__call__\<close> runs the request
  processor in the directory that this fingerprint names and consumes the 8 bytes: a
  second run of the same job names its directory by the digest of the 8 bytes after them.
  The directory is therefore reused only if the entropy source or the digest repeats.
\<close>

theorem disabled_cache_fingerprint_from_fresh_seed:
  assumes "cache_disabled st"
      and "as_dataset ext dataset_arg = Inr dataset"
      and "get_function_source ext (prompt_func (LLM.prompt_formatter self)) = Inr s1"
      and "parse_func_source_of ext (LLM.prompt_formatter self) = Inr s2"
  shows "hash_fingerprint ext self dataset_hash True st =
           (xxh64_hexdigest ext (map (entropy st) [entropy_pos st ..< entropy_pos st + 8]),
            st\<lparr>entropy_pos := entropy_pos st + 8\<rparr>)
       \<and> hash_fingerprint ext self' dataset_hash' True st =
           hash_fingerprint ext self dataset_hash True st
       \<and> processor_calls (snd (LLM_call ext self dataset_arg wd False st)) =
           processor_calls st @
           [Run (path_join (curator_cache_dir ext wd st)
                   (xxh64_hexdigest ext
                      (map (entropy st) [entropy_pos st ..< entropy_pos st + 8])))
                (get_function_hash ext (parse_func (LLM.prompt_formatter self)))]
       \<and> entropy_pos (snd (LLM_call ext self dataset_arg wd False st)) = entropy_pos st + 8
       \<and> processor_calls
           (snd (LLM_call ext self dataset_arg wd False
                   (snd (LLM_call ext self dataset_arg wd False st)))) =
           processor_calls st @
           [Run (path_join (curator_cache_dir ext wd st)
                   (xxh64_hexdigest ext
                      (map (entropy st) [entropy_pos st ..< entropy_pos st + 8])))
                (get_function_hash ext (parse_func (LLM.prompt_formatter self))),
            Run (path_join (curator_cache_dir ext wd st)
                   (xxh64_hexdigest ext
                      (map (entropy st) [entropy_pos st + 8 ..< entropy_pos st + 16])))
                (get_function_hash ext (parse_func (LLM.prompt_formatter self)))]"
  using LLM_call_twice_disabled[OF assms, of wd]
        LLM_call_run_state(3)[OF assms(2-4), of wd st] assms(1)
  by (simp add: hash_fingerprint_disabled)

theorem disabled_cache_fingerprint_from_fresh_seed_witness:
  "cache_disabled example_os_no_cache
   \<and> processor_calls
       (snd (LLM_call example_ext (example_llm False []) None (Some ''/tmp/cache'') False
          (snd (LLM_call example_ext (example_llm False []) None (Some ''/tmp/cache'') False
                  example_os_no_cache)))) =
       [Run (''/tmp/cache/xxh64:'' @ map char_of [0 ..< (8::nat)]) ''xxh64:'',
        Run (''/tmp/cache/xxh64:'' @ map char_of [8 ..< (16::nat)]) ''xxh64:'']
   \<and> map char_of [0 ..< (8::nat)] \<noteq> (map char_of [8 ..< (16::nat)] :: string)"
proof -
  have x: "xxh64_hexdigest example_ext s = ''xxh64:'' @ s" for s
    by (simp add: example_ext_def)
  have st: "processor_calls example_os_no_cache = []" "entropy_pos example_os_no_cache = 0"
           "entropy example_os_no_cache = char_of"
    by (simp_all add: example_os_no_cache_def example_os_def)
  from disabled_cache_fingerprint_from_fresh_seed
         [OF example_cache_disabled example_sources(1) example_sources(2,3)[of False "[]"],
          of "''d41d8cd9''" "example_llm False []" "''d41d8cd9''" "Some ''/tmp/cache''"]
  have "processor_calls
       (snd (LLM_call example_ext (example_llm False []) None (Some ''/tmp/cache'') False
          (snd (LLM_call example_ext (example_llm False []) None (Some ''/tmp/cache'') False
                  example_os_no_cache)))) =
       [Run (''/tmp/cache/xxh64:'' @ map char_of [0 ..< (8::nat)]) ''xxh64:'',
        Run (''/tmp/cache/xxh64:'' @ map char_of [8 ..< (16::nat)]) ''xxh64:'']"
    by (simp only: st x example_sources(4) example_run_dir) simp
  with example_cache_disabled example_seeds_differ show ?thesis by simp
qed

subsection \<open>Cancellation requested\<close>

text \<open>What \<open>__call__\<close> does when \<open>batch_cancel\<close> is set and the dataset and the sources
  of the two functions are available.\<close>

lemma LLM_call_batch_cancel:
  assumes "as_dataset ext dataset_arg = Inr dataset"
      and "get_function_source ext (prompt_func (LLM.prompt_formatter self)) = Inr s1"
      and "parse_func_source_of ext (LLM.prompt_formatter self) = Inr s2"
  shows "fst (LLM_call ext self dataset_arg wd True st) =
           (if processor_class (LLM.request_processor self) \<noteq> OpenAIBatch
            then Inl (ValueError ''batch_cancel can only be used with batch mode'')
            else cancel_batches (LLM.request_processor self)
                   (path_join (curator_cache_dir ext wd st)
                      (fst (hash_fingerprint ext self (dataset_hash_of ext dataset)
                              (cache_disabled st) st))))"
    and "processor_calls (snd (LLM_call ext self dataset_arg wd True st)) =
           (if processor_class (LLM.request_processor self) \<noteq> OpenAIBatch
            then processor_calls st
            else processor_calls st @
                   [CancelBatches (path_join (curator_cache_dir ext wd st)
                      (fst (hash_fingerprint ext self (dataset_hash_of ext dataset)
                              (cache_disabled st) st)))])"
    and "\<exists>row. metadata_db (snd (LLM_call ext self dataset_arg wd True st)) =
           metadata_db st @ [(path_join (curator_cache_dir ext wd st) ''metadata.db'', row)]
           \<and> run_hash row = fst (hash_fingerprint ext self (dataset_hash_of ext dataset)
                              (cache_disabled st) st)"
  using assms
  by (auto simp: LLM_call_def Let_def store_metadata_def processor_calling_def
        hash_fingerprint_keeps_stores)

lemma example_fingerprint:
  "fst (hash_fingerprint example_ext (example_llm b []) (dataset_hash_of example_ext None)
          (cache_disabled example_os) example_os)
   = ''xxh64:xxh64:_xxh64:prompt_claude-3-5-haiku_text_'' @ str_bool b @ ''_openai''"
  by (simp add: hash_fingerprint_def cache_disabled_def example_os_def lower_def
        fingerprint_str_def example_llm_def example_formatter_def example_function_def
        example_request_processor_def get_function_hash_def join_def remove_none_values_def
        example_ext_def dataset_hash_of_def)

lemma example_classes:
  "processor_class (LLM.request_processor (example_llm False d)) = OpenAIOnline"
  "processor_class (LLM.request_processor (example_llm True d)) = OpenAIBatch"
  "cancel_batches (LLM.request_processor (example_llm True d)) dir = Inr example_dataset"
  by (simp_all add: example_llm_def example_request_processor_def)

text \<open>
  C5, as stated, fails: with an online processor and \<open>batch_cancel\<close> set, \<open>__call__\<close>
  raises the error, but only after it has stored the run's record in the metadata store,
  which was empty before the call and holds one row after it.
\<close>

theorem batch_cancel_error_after_metadata_counterexample:
  "fst (LLM_call example_ext (example_llm False []) None (Some ''/tmp/cache'') True example_os)
     = Inl (ValueError ''batch_cancel can only be used with batch mode'')
   \<and> metadata_db example_os = []
   \<and> length (metadata_db (snd (LLM_call example_ext (example_llm False []) None
                (Some ''/tmp/cache'') True example_os))) = 1"
proof -
  note facts = LLM_call_batch_cancel
                 [OF example_sources(1) example_sources(2,3)[of False "[]"],
                  of "Some ''/tmp/cache''" example_os]
  have m: "metadata_db example_os = []" by (simp add: example_os_def)
  from facts(1)
  have "fst (LLM_call example_ext (example_llm False []) None (Some ''/tmp/cache'') True
               example_os)
        = Inl (ValueError ''batch_cancel can only be used with batch mode'')"
    by (simp add: example_classes)
  moreover from facts(3) m
  have "length (metadata_db (snd (LLM_call example_ext (example_llm False []) None
                  (Some ''/tmp/cache'') True example_os))) = 1"
    by auto
  ultimately show ?thesis using m by simp
qed

text \<open>
  C5, amended. When the dataset and the sources of the prompt and parse functions are
  available, invoking \<open>__call__\<close> with \<open>batch_cancel\<close> on an online processor raises
  \<open>ValueError\<close> without any call into the request processor, after the run's record has
  been appended to the metadata store; on an OpenAI batch processor the error is not
  raised and \<open>cancel_batches\<close> is called once, on the run's directory, its result being
  the result of \<open>__call__\<close>.
\<close>

theorem batch_cancel_on_online_processor_raises:
  assumes "as_dataset ext dataset_arg = Inr dataset"
      and "get_function_source ext (prompt_func (LLM.prompt_formatter self)) = Inr s1"
      and "parse_func_source_of ext (LLM.prompt_formatter self) = Inr s2"
  shows "(processor_class (LLM.request_processor self) \<in> {OpenAIOnline, LiteLLMOnline} \<longrightarrow>
            fst (LLM_call ext self dataset_arg wd True st) =
              Inl (ValueError ''batch_cancel can only be used with batch mode'')
          \<and> processor_calls (snd (LLM_call ext self dataset_arg wd True st)) =
              processor_calls st
          \<and> (\<exists>row. metadata_db (snd (LLM_call ext self dataset_arg wd True st)) =
                 metadata_db st @
                 [(path_join (curator_cache_dir ext wd st) ''metadata.db'', row)]))
       \<and> (processor_class (LLM.request_processor self) = OpenAIBatch \<longrightarrow>
            fst (LLM_call ext self dataset_arg wd True st) =
              cancel_batches (LLM.request_processor self)
                (path_join (curator_cache_dir ext wd st)
                   (fst (hash_fingerprint ext self (dataset_hash_of ext dataset)
                           (cache_disabled st) st)))
          \<and> processor_calls (snd (LLM_call ext self dataset_arg wd True st)) =
              processor_calls st @
              [CancelBatches (path_join (curator_cache_dir ext wd st)
                   (fst (hash_fingerprint ext self (dataset_hash_of ext dataset)
                           (cache_disabled st) st)))])"
  using LLM_call_batch_cancel[OF assms, of wd st] by auto

theorem batch_cancel_on_online_processor_raises_witness:
  "fst (LLM_call example_ext (example_llm False []) None (Some ''/tmp/cache'') True example_os)
     = Inl (ValueError ''batch_cancel can only be used with batch mode'')
   \<and> processor_calls (snd (LLM_call example_ext (example_llm False []) None
        (Some ''/tmp/cache'') True example_os)) = []
   \<and> fst (LLM_call example_ext (example_llm True []) None (Some ''/tmp/cache'') True
            example_os) = Inr example_dataset
   \<and> processor_calls (snd (LLM_call example_ext (example_llm True []) None
        (Some ''/tmp/cache'') True example_os)) =
       [CancelBatches
          ''/tmp/cache/xxh64:xxh64:_xxh64:prompt_claude-3-5-haiku_text_True_openai'']"
proof -
  have pc: "processor_calls example_os = []" by (simp add: example_os_def)
  from batch_cancel_on_online_processor_raises
         [of example_ext None None "example_llm False []" "''prompt''" "[]"
             "Some ''/tmp/cache''" example_os]
       example_sources(1) example_sources(2-4)[of False "[]"] example_classes(1)[of "[]"]
  have a: "fst (LLM_call example_ext (example_llm False []) None (Some ''/tmp/cache'') True
                  example_os)
             = Inl (ValueError ''batch_cancel can only be used with batch mode'')
           \<and> processor_calls (snd (LLM_call example_ext (example_llm False []) None
                (Some ''/tmp/cache'') True example_os)) = []"
    by (simp add: pc)
  from batch_cancel_on_online_processor_raises
         [of example_ext None None "example_llm True []" "''prompt''" "[]"
             "Some ''/tmp/cache''" example_os]
       example_sources(1) example_sources(2-4)[of True "[]"] example_classes(2,3)[of "[]"]
  have b: "fst (LLM_call example_ext (example_llm True []) None (Some ''/tmp/cache'') True
                  example_os) = Inr example_dataset
           \<and> processor_calls (snd (LLM_call example_ext (example_llm True []) None
                (Some ''/tmp/cache'') True example_os)) =
               [CancelBatches
                  ''/tmp/cache/xxh64:xxh64:_xxh64:prompt_claude-3-5-haiku_text_True_openai'']"
    by (simp add: pc example_fingerprint path_join_def curator_cache_dir_def str_bool_def)
  from a b show ?thesis by simp
qed

section \<open>The Prompter entry point: theorems\<close>

text \<open>The hash that \<open>prompter.py\<close> takes of a function is never computed: the
  construction of the code object raises.\<close>

lemma prompter_get_function_hash_raises:
  "prompter_get_function_hash ext (Some f) = Inl (TypeError ''an integer is required'')"
  by (simp add: prompter_get_function_hash_def CodeType_def bind_def)

lemma Prompter_fingerprint_raises:
  "Prompter_fingerprint ext self dataset = Inl (TypeError ''an integer is required'')"
  by (simp add: Prompter_fingerprint_def prompter_get_function_hash_raises bind_def Let_def)

text \<open>
  C3. In \<open>LLM\<close> the generation parameters are part of the hashed string (lemma
  \<open>generation_param_changes_fingerprint_string\<close>). In \<open>Prompter\<close> they are not, and no
  fingerprint is produced at all: for a \<open>Prompter\<close> constructed with or without a
  temperature, \<open>_completions\<close> raises \<open>TypeError\<close> when it hashes the prompt function,
  before the fingerprint string is put together. So adding or changing a generation
  parameter does not produce a different fingerprint in \<open>Prompter\<close>.
\<close>

theorem Prompter_fingerprint_raises_for_every_temperature:
  "Prompter_init example_ext ''gpt-4o-mini'' example_function None None None False None
      (example_sampling None) True False = Inr (example_prompter None)
   \<and> Prompter_init example_ext ''gpt-4o-mini'' example_function None None None False None
      (example_sampling (Some 0.7)) True False = Inr (example_prompter (Some 0.7))
   \<and> Prompter_fingerprint example_ext (example_prompter None) (Some example_dataset)
       = Inl (TypeError ''an integer is required'')
   \<and> Prompter_fingerprint example_ext (example_prompter (Some 0.7)) (Some example_dataset)
       = Inl (TypeError ''an integer is required'')"
  by (simp add: example_Prompter_init Prompter_fingerprint_raises)

end
